theory Spec2Isabelle
  imports Main
begin

section \<open>JavaScript values\<close>

text \<open>
  The values the SOAP transport hands to the callback of \<open>getStudentData\<close>: the
  collections of the payload and their elements. The callback calls \<open>.map\<close> on the
  collections, tests the \<open>schools\<close> field with \<open>typeof\<close> (it is "sometimes an array,
  sometimes one school") and hands the elements to the decoder of their class.
\<close>

datatype jsval =
    JUndefined
  | JNull
  | JBool bool
  | JNum int
  | JStr string
  | JArray "jsval list"
  | JObject "(string \<times> jsval) list"

text \<open>
  The \<open>typeof\<close> operator of JavaScript. It has no result for arrays of their own: an
  array is an object.
\<close>

fun typeof :: "jsval \<Rightarrow> string" where
  "typeof JUndefined = ''undefined''"
| "typeof JNull = ''object''"
| "typeof (JBool b) = ''boolean''"
| "typeof (JNum n) = ''number''"
| "typeof (JStr s) = ''string''"
| "typeof (JArray xs) = ''object''"
| "typeof (JObject ps) = ''object''"

text \<open>
  What a step of the callback throws: the \<open>TypeError\<close> of JavaScript for a method call
  on a value that has no such method or a property read on \<open>undefined\<close>, or whatever a
  decoder throws.
\<close>

datatype js_error = TypeError | Exception jsval

text \<open>
  \<open>v.map(f)\<close>: for an array, \<open>f\<close> on each element in turn, up to the first one on which
  it throws; no other value of a payload has a \<open>map\<close> method, and the call throws.
\<close>

fun map_throw :: "('a \<Rightarrow> js_error + 'b) \<Rightarrow> 'a list \<Rightarrow> js_error + 'b list" where
  "map_throw f [] = Inr []"
| "map_throw f (x # xs) =
     (case f x of
        Inl e \<Rightarrow> Inl e
      | Inr y \<Rightarrow> (case map_throw f xs of Inl e \<Rightarrow> Inl e | Inr ys \<Rightarrow> Inr (y # ys)))"

definition js_map :: "(jsval \<Rightarrow> js_error + 'b) \<Rightarrow> jsval \<Rightarrow> js_error + 'b list" where
  "js_map f v = (case v of JArray xs \<Rightarrow> map_throw f xs | _ \<Rightarrow> Inl TypeError)"

section \<open>Objects used as dictionaries\<close>

text \<open>
  \<open>var assignmentCategories = {}\<close> is a plain object used as a dictionary from
  category ids to categories. The ids are numbers (\<open>id: number\<close> and
  \<open>categoryID: number\<close> in \<open>index.d.ts\<close>), so the property names are the decimal
  numerals of the ids, and the object is modelled by its own properties as a list of
  pairs, kept in the order in which \<open>Object.values\<close> enumerates them: the array indices
  (the integers from 0 to 2^32 - 2) in ascending order first, then the other names in
  the order of their creation. Writing an existing property keeps its place.
\<close>

type_synonym 'v js_object = "(int \<times> 'v) list"

definition is_array_index :: "int \<Rightarrow> bool" where
  "is_array_index k \<longleftrightarrow> 0 \<le> k \<and> k < 2 ^ 32 - 1"

fun obj_insert :: "int \<Rightarrow> 'v \<Rightarrow> 'v js_object \<Rightarrow> 'v js_object" where
  "obj_insert k v [] = [(k, v)]"
| "obj_insert k v ((k', v') # ps) =
     (if is_array_index k \<and> (\<not> is_array_index k' \<or> k < k')
      then (k, v) # (k', v') # ps
      else (k', v') # obj_insert k v ps)"

definition obj_set :: "int \<Rightarrow> 'v \<Rightarrow> 'v js_object \<Rightarrow> 'v js_object" where
  "obj_set k v ps =
     (case map_of ps k of
        None \<Rightarrow> obj_insert k v ps
      | Some old \<Rightarrow> map (\<lambda>(k', v'). if k' = k then (k', v) else (k', v')) ps)"

definition Object_values :: "'v js_object \<Rightarrow> 'v list" where
  "Object_values ps = map snd ps"

section \<open>Decoded records\<close>

text \<open>
  The classes \<open>PowerSchoolSchool\<close>, \<open>PowerSchoolTeacher\<close>, ... live in files of their
  own; \<open>getStudentInfo\<close> only calls their \<open>fromData\<close> and passes the results on. Their
  instances are values of the type parameter \<open>'r\<close>, and the \<open>fromData\<close> functions are
  parameters of the model (the record \<open>decoders\<close> below); each of them returns a
  record or throws.

  \<open>getStudentInfo\<close> reads \<open>categoryID\<close> of an assignment, so an assignment is that
  field next to its other fields. Every call of \<open>fromData\<close> makes a new object; two
  assignments decoded from equal payload elements are still two objects. An assignment
  object is therefore a pair of its identity (its index in the decoded array) and its
  fields.
\<close>

record 'r PowerSchoolAssignment =
  categoryID :: int
  assignment_fields :: 'r

type_synonym 'r assignment_obj = "nat \<times> 'r PowerSchoolAssignment"

definition new_objects :: "'a list \<Rightarrow> (nat \<times> 'a) list" where
  "new_objects xs = zip [0..<length xs] xs"

record 'r PowerSchoolAssignmentCategory =
  category_id :: int
  category_fields :: jsval
  assignments :: "'r assignment_obj list"

text \<open>
  An element of \<open>data.assignmentCategories\<close>: \<open>getStudentInfo\<close> reads its \<open>id\<close>, the
  other properties go to the decoder.
\<close>

record raw_category =
  raw_id :: int
  raw_fields :: jsval

text \<open>
  Modelled from the spec: \<open>PowerSchoolAssignmentCategory.fromData\<close> is in a file that is
  not part of the sources at hand. The spec's data model has a decoded record keep the
  identifier of its payload element, and has the category's \<open>assignments\<close> attribute
  "populated post-hoc by scanning the assignments collection ... and appending": the list
  starts empty. \<open>index.d.ts\<close> declares \<open>id: number\<close> and
  \<open>assignments: PowerSchoolAssignment[]\<close>.
\<close>

definition AssignmentCategory_fromData :: "raw_category \<Rightarrow> 'r PowerSchoolAssignmentCategory" where
  "AssignmentCategory_fromData d =
     \<lparr>category_id = raw_id d, category_fields = raw_fields d, assignments = []\<rparr>"

record 'r decoders =
  School_fromData :: "jsval \<Rightarrow> js_error + 'r"
  Teacher_fromData :: "jsval \<Rightarrow> js_error + 'r"
  Term_fromData :: "jsval \<Rightarrow> js_error + 'r"
  ReportingTerm_fromData :: "jsval \<Rightarrow> js_error + 'r"
  Assignment_fromData :: "jsval \<Rightarrow> js_error + 'r PowerSchoolAssignment"
  AssignmentScore_fromData :: "jsval \<Rightarrow> js_error + 'r"
  AttendanceCode_fromData :: "jsval \<Rightarrow> js_error + 'r"
  Period_fromData :: "jsval \<Rightarrow> js_error + 'r"
  Course_fromData :: "jsval \<Rightarrow> js_error + 'r"
  FinalGrade_fromData :: "jsval \<Rightarrow> js_error + 'r"
  Event_fromData :: "jsval \<Rightarrow> js_error + 'r"
  Student_fromData :: "jsval \<Rightarrow> js_error + 'r"
  AttendanceRecord_fromData :: "jsval \<Rightarrow> js_error + 'r"

section \<open>The transport's reply\<close>

text \<open>
  \<open>result.return.studentDataVOs\<close>, the flat payload. Every field is whatever the
  service sent: a collection may be missing (\<open>JUndefined\<close>) or not an array. The
  categories are the one collection whose elements the callback itself reads
  (\<open>data.id\<close>): the field is \<open>None\<close> when the payload has no such array, and its
  elements carry their numeric id.
\<close>

record studentDataVOs =
  data_schools :: jsval
  data_teachers :: jsval
  data_terms :: jsval
  data_reportingTerms :: jsval
  data_assignments :: jsval
  data_assignmentScores :: jsval
  data_attendanceCodes :: jsval
  data_periods :: jsval
  data_sections :: jsval
  data_finalGrades :: jsval
  data_assignmentCategories :: "raw_category list option"
  data_notInSessionDays :: jsval
  data_student :: jsval
  data_yearId :: jsval
  data_attendance :: jsval

text \<open>
  The envelope around the payload. The guard of the callback tests \<open>result\<close>,
  \<open>result.return\<close> and \<open>result.return.studentDataVOs\<close> for truthiness: \<open>None\<close> is a
  missing (or otherwise falsy) value, \<open>Some\<close> an object.
\<close>

record soap_return =
  studentDataVOs :: "studentDataVOs option"

record soap_result =
  return :: "soap_return option"

definition soap_ok :: "studentDataVOs \<Rightarrow> soap_result option" where
  "soap_ok data = Some \<lparr>return = Some \<lparr>studentDataVOs = Some data\<rparr>\<rparr>"

text \<open>
  Modelled from the spec: the transport (\<open>this.api.client.getStudentData\<close>, a SOAP
  client) is an external collaborator and not among the source files. The spec gives its
  interface as \<open>fetchStudentPayload(sessionContext) -> RawPayload | TransportError\<close>: it
  calls back either with its error and no result, or with no error (\<open>null\<close>) and its
  result.
\<close>

datatype transport_reply = TransportError jsval | TransportResult "soap_result option"

fun reply_err :: "transport_reply \<Rightarrow> jsval" where
  "reply_err (TransportError e) = e"
| "reply_err (TransportResult r) = JNull"

fun reply_result :: "transport_reply \<Rightarrow> soap_result option" where
  "reply_result (TransportError e) = None"
| "reply_result (TransportResult r) = r"

section \<open>The state: the API's cache and the student info objects\<close>

text \<open>
  What is stored in the cache or on the student info object: a list of decoded records,
  the assignments, the categories, one record, or a scalar of the payload.
\<close>

datatype 'r jsdata =
    Records "'r list"
  | Assignments "'r assignment_obj list"
  | Categories "'r PowerSchoolAssignmentCategory list"
  | Record 'r
  | Scalar jsval

text \<open>
  A call of \<open>this.api.storeCacheInfo\<close> with its arguments; the third one is \<open>None\<close> where
  the call leaves it out.
\<close>

record 'r store_call =
  call_records :: "'r jsdata"
  call_name :: string
  call_key :: "string option"

text \<open>
  Modelled from the spec: \<open>PowerSchoolAPI.storeCacheInfo\<close> is not among the source files.
  The spec gives it as \<open>store(collectionName, records, keyField = "id")\<close>: a call that
  leaves the key field out uses \<open>id\<close>.
\<close>

definition key_field :: "'r store_call \<Rightarrow> string" where
  "key_field c = (case call_key c of None \<Rightarrow> ''id'' | Some k \<Rightarrow> k)"

text \<open>
  A \<open>PowerSchoolStudentInfo\<close> object is its properties; the heap holds these objects, a
  reference is an index into it.
\<close>

type_synonym 'r PowerSchoolStudentInfo = "string \<rightharpoonup> 'r jsdata"

record 'r state =
  cache_calls :: "'r store_call list"
  heap :: "'r PowerSchoolStudentInfo list"

text \<open>
  Modelled from the spec: \<open>PowerSchoolAPI.storeCacheInfo\<close> is not among the source files.
  The spec's \<open>store\<close> replaces the collection of the given name by the given records,
  keyed by the key field, so the cache is a function of the calls made; the model keeps
  these calls, in the order in which they are made.
\<close>

definition storeCacheInfo :: "'r jsdata \<Rightarrow> string \<Rightarrow> string option \<Rightarrow> 'r state \<Rightarrow> 'r state" where
  "storeCacheInfo recs name key s =
     s\<lparr>cache_calls := cache_calls s @ [\<lparr>call_records = recs, call_name = name, call_key = key\<rparr>]\<rparr>"

text \<open>
  \<open>ref.name = v\<close> on the student info object at \<open>ref\<close>. The references of the model come
  from the constructor and are in range; for any other nothing is written.
\<close>

definition set_property :: "nat \<Rightarrow> string \<Rightarrow> 'r jsdata \<Rightarrow> 'r state \<Rightarrow> 'r state" where
  "set_property ref name v s = s\<lparr>heap := (heap s)[ref := (heap s ! ref)(name \<mapsto> v)]\<rparr>"

section \<open>PowerSchoolUser\<close>

record session =
  session_userId :: jsval
  session_userType :: jsval

record PowerSchoolUser =
  user_session :: session
  userID :: jsval
  userType :: jsval
  studentData :: nat

text \<open>
  Modelled from the spec: the constructor of \<open>PowerSchoolStudentInfo\<close> is not at hand;
  before the first fetch nothing has been fetched, and the new object has no property.
\<close>

definition new_PowerSchoolStudentInfo :: "'r state \<Rightarrow> nat \<times> 'r state" where
  "new_PowerSchoolStudentInfo s = (length (heap s), s\<lparr>heap := heap s @ [Map.empty]\<rparr>)"

definition initUserVariables :: "session \<Rightarrow> 'r state \<Rightarrow> PowerSchoolUser \<times> 'r state" where
  "initUserVariables sess s =
     (let (ref, s') = new_PowerSchoolStudentInfo s
      in (\<lparr>user_session = sess, userID = session_userId sess,
           userType = session_userType sess, studentData = ref\<rparr>, s'))"

text \<open>
  The constructor. (It also rewrites the session's \<open>serverCurrentTime\<close> as an ISO date,
  which only the request uses.)
\<close>

definition new_PowerSchoolUser :: "session \<Rightarrow> 'r state \<Rightarrow> PowerSchoolUser \<times> 'r state" where
  "new_PowerSchoolUser sess s = initUserVariables sess s"

section \<open>getStudentInfo\<close>

text \<open>
  \<open>assignments.filter(...).forEach((a) => assignmentCategories[a.categoryID].assignments.push(a))\<close>:
  the loop over the filtered assignments. Reading \<open>.assignments\<close> of a missing property
  raises a \<open>TypeError\<close>.
\<close>

fun forEach_push ::
  "'r assignment_obj list \<Rightarrow> 'r PowerSchoolAssignmentCategory js_object
   \<Rightarrow> js_error + 'r PowerSchoolAssignmentCategory js_object" where
  "forEach_push [] cats = Inr cats"
| "forEach_push (a # as) cats =
     (case map_of cats (categoryID (snd a)) of
        None \<Rightarrow> Inl TypeError
      | Some c \<Rightarrow>
          forEach_push as
            (obj_set (categoryID (snd a)) (c\<lparr>assignments := assignments c @ [a]\<rparr>) cats))"

text \<open>
  How the promise of \<open>getStudentInfo\<close> ends: resolved with a reference to a student
  info object, rejected with the transport's \<open>err\<close>, or never settled because the callback
  threw.
\<close>

datatype outcome = Resolved nat | Rejected jsval | Thrown js_error

text \<open>
  One step of the callback that may throw, in the state \<open>s\<close> reached so far: when it
  throws, the callback ends there, with what it has written up to then; otherwise the
  callback goes on with the step's value.
\<close>

definition or_throw :: "js_error + 'a \<Rightarrow> 's \<Rightarrow> ('a \<Rightarrow> outcome \<times> 's) \<Rightarrow> outcome \<times> 's" where
  "or_throw step s k = (case step of Inl e \<Rightarrow> (Thrown e, s) | Inr x \<Rightarrow> k x)"

text \<open>
  The callback of \<open>getStudentData\<close>, run on the transport's \<open>err\<close> and \<open>result\<close>. The
  request itself is the transport's business.
\<close>

definition getStudentInfo ::
  "'r decoders \<Rightarrow> PowerSchoolUser \<Rightarrow> jsval \<Rightarrow> soap_result option \<Rightarrow> 'r state
   \<Rightarrow> outcome \<times> 'r state" where
  "getStudentInfo dec this err result s =
    (case result of None \<Rightarrow> (Rejected err, s) | Some res \<Rightarrow>
    (case return res of None \<Rightarrow> (Rejected err, s) | Some ret \<Rightarrow>
    (case studentDataVOs ret of None \<Rightarrow> (Rejected err, s) | Some data \<Rightarrow>
      or_throw (js_map (School_fromData dec)
                 (if typeof (data_schools data) = ''array''
                  then data_schools data else JArray [data_schools data])) s (\<lambda>schools.
      or_throw (js_map (Teacher_fromData dec) (data_teachers data)) s (\<lambda>teachers.
      or_throw (js_map (Term_fromData dec) (data_terms data)) s (\<lambda>terms.
      or_throw (js_map (ReportingTerm_fromData dec) (data_reportingTerms data)) s (\<lambda>reportingTerms.
      or_throw (js_map (Assignment_fromData dec) (data_assignments data)) s (\<lambda>decoded.
      or_throw (js_map (AssignmentScore_fromData dec) (data_assignmentScores data)) s (\<lambda>assignmentScores.
      or_throw (js_map (AttendanceCode_fromData dec) (data_attendanceCodes data)) s (\<lambda>attendanceCodes.
      or_throw (js_map (Period_fromData dec) (data_periods data)) s (\<lambda>periods.
      or_throw (js_map (Course_fromData dec) (data_sections data)) s (\<lambda>courses.
      or_throw (js_map (FinalGrade_fromData dec) (data_finalGrades data)) s (\<lambda>finalGrades.
      or_throw (case data_assignmentCategories data of
                  None \<Rightarrow> Inl TypeError
                | Some ds \<Rightarrow>
                    Inr (fold (\<lambda>d cats. obj_set (raw_id d) (AssignmentCategory_fromData d) cats)
                           ds [])) s (\<lambda>assignmentCategories.
      (let assignments = new_objects decoded in
      or_throw (forEach_push
                 (filter (\<lambda>a. map_of assignmentCategories (categoryID (snd a)) \<noteq> None)
                    assignments)
                 assignmentCategories) s (\<lambda>assignmentCategories.
      (let s = storeCacheInfo (Records teachers) ''teachers'' None s;
           s = storeCacheInfo (Records schools) ''schools'' (Some ''schoolNumber'') s;
           s = storeCacheInfo (Records periods) ''periods'' None s;
           s = storeCacheInfo (Records courses) ''courses'' None s;
           s = storeCacheInfo (Records finalGrades) ''finalGrades'' (Some ''courseID'') s;
           s = storeCacheInfo (Records terms) ''terms'' None s;
           s = storeCacheInfo (Records reportingTerms) ''reportingTerms'' None s;
           s = storeCacheInfo (Categories (Object_values assignmentCategories))
                 ''assignmentCategories'' None s;
           s = storeCacheInfo (Assignments assignments) ''assignments'' None s;
           s = storeCacheInfo (Records assignmentScores) ''assignmentScores''
                 (Some ''assignmentID'') s;
           s = storeCacheInfo (Records attendanceCodes) ''attendanceCodes'' None s;
           ref = studentData this;
           s = set_property ref ''schools'' (Records schools) s;
           s = set_property ref ''teachers'' (Records teachers) s;
           s = set_property ref ''periods'' (Records periods) s;
           s = set_property ref ''courses'' (Records courses) s;
           s = set_property ref ''terms'' (Records terms) s;
           s = set_property ref ''reportingTerms'' (Records reportingTerms) s
       in
      or_throw (js_map (Event_fromData dec) (data_notInSessionDays data)) s (\<lambda>notInSessionDays.
      (let s = set_property ref ''notInSessionDays'' (Records notInSessionDays) s in
      or_throw (Student_fromData dec (data_student data)) s (\<lambda>student.
      (let s = set_property ref ''student'' (Record student) s;
           s = set_property ref ''yearID'' (Scalar (data_yearId data)) s;
           s = set_property ref ''assignmentCategories''
                 (Categories (Object_values assignmentCategories)) s
       in
      or_throw (js_map (AttendanceRecord_fromData dec) (data_attendance data)) s (\<lambda>attendanceRecords.
      (let s = set_property ref ''attendanceRecords'' (Records attendanceRecords) s;
           s = set_property ref ''attendanceCodes'' (Records attendanceCodes) s;
           s = set_property ref ''finalGrades'' (Records finalGrades) s
       in (Resolved ref, s))))))))))))))))))))))))"

text \<open>
  The values of the decoding steps of a run of the callback in which no step throws: one
  field for each decoded collection (\<open>var schools\<close>, \<open>var teachers\<close>, ...), the elements
  of \<open>data.assignmentCategories\<close>, and the values of the three steps that decode straight
  onto the student info object. \<open>decodes_to dec data d\<close> says that the steps, run on the
  payload \<open>data\<close>, yield the values \<open>d\<close>; the callback resolves exactly when there are such
  values (\<open>resolved_iff_decodes\<close> below).
\<close>

record 'r decoded =
  decoded_school :: 'r
  decoded_teachers :: "'r list"
  decoded_terms :: "'r list"
  decoded_reportingTerms :: "'r list"
  decoded_assignments :: "'r PowerSchoolAssignment list"
  decoded_assignmentScores :: "'r list"
  decoded_attendanceCodes :: "'r list"
  decoded_periods :: "'r list"
  decoded_courses :: "'r list"
  decoded_finalGrades :: "'r list"
  raw_categories :: "raw_category list"
  decoded_notInSessionDays :: "'r list"
  decoded_student :: 'r
  decoded_attendanceRecords :: "'r list"

definition decodes_to :: "'r decoders \<Rightarrow> studentDataVOs \<Rightarrow> 'r decoded \<Rightarrow> bool" where
  "decodes_to dec data d \<longleftrightarrow>
     School_fromData dec (data_schools data) = Inr (decoded_school d) \<and>
     js_map (Teacher_fromData dec) (data_teachers data) = Inr (decoded_teachers d) \<and>
     js_map (Term_fromData dec) (data_terms data) = Inr (decoded_terms d) \<and>
     js_map (ReportingTerm_fromData dec) (data_reportingTerms data) =
       Inr (decoded_reportingTerms d) \<and>
     js_map (Assignment_fromData dec) (data_assignments data) = Inr (decoded_assignments d) \<and>
     js_map (AssignmentScore_fromData dec) (data_assignmentScores data) =
       Inr (decoded_assignmentScores d) \<and>
     js_map (AttendanceCode_fromData dec) (data_attendanceCodes data) =
       Inr (decoded_attendanceCodes d) \<and>
     js_map (Period_fromData dec) (data_periods data) = Inr (decoded_periods d) \<and>
     js_map (Course_fromData dec) (data_sections data) = Inr (decoded_courses d) \<and>
     js_map (FinalGrade_fromData dec) (data_finalGrades data) = Inr (decoded_finalGrades d) \<and>
     data_assignmentCategories data = Some (raw_categories d) \<and>
     js_map (Event_fromData dec) (data_notInSessionDays data) =
       Inr (decoded_notInSessionDays d) \<and>
     Student_fromData dec (data_student data) = Inr (decoded_student d) \<and>
     js_map (AttendanceRecord_fromData dec) (data_attendance data) =
       Inr (decoded_attendanceRecords d)"

section \<open>A concrete fetch\<close>

text \<open>
  Inputs on which the model is evaluated below. The decoders keep the payload element
  as it is and throw on \<open>undefined\<close>; an assignment's payload element is the number of
  its category. The payload has four assignments (two in category 1, one in category 2,
  one in a category 9 that the payload does not have) and the categories 2 and 1, in
  this order.
\<close>

definition ex_fromData :: "jsval \<Rightarrow> js_error + jsval" where
  "ex_fromData v = (case v of JUndefined \<Rightarrow> Inl TypeError | _ \<Rightarrow> Inr v)"

definition ex_dec :: "jsval decoders" where
  "ex_dec =
     \<lparr>School_fromData = ex_fromData, Teacher_fromData = ex_fromData, Term_fromData = ex_fromData,
      ReportingTerm_fromData = ex_fromData,
      Assignment_fromData =
        (\<lambda>v. case v of JNum n \<Rightarrow> Inr \<lparr>categoryID = n, assignment_fields = v\<rparr>
                        | _ \<Rightarrow> Inl TypeError),
      AssignmentScore_fromData = ex_fromData, AttendanceCode_fromData = ex_fromData,
      Period_fromData = ex_fromData, Course_fromData = ex_fromData,
      FinalGrade_fromData = ex_fromData, Event_fromData = ex_fromData,
      Student_fromData = ex_fromData, AttendanceRecord_fromData = ex_fromData\<rparr>"

definition ex_data :: studentDataVOs where
  "ex_data =
     \<lparr>data_schools = JObject [(''schoolNumber'', JNum 7)],
      data_teachers = JArray [JStr ''teacher''],
      data_terms = JArray [JStr ''term''],
      data_reportingTerms = JArray [JStr ''reporting term''],
      data_assignments = JArray [JNum 1, JNum 1, JNum 2, JNum 9],
      data_assignmentScores = JArray [JStr ''score''],
      data_attendanceCodes = JArray [JStr ''code''],
      data_periods = JArray [JStr ''period''],
      data_sections = JArray [JStr ''course''],
      data_finalGrades = JArray [JStr ''grade''],
      data_assignmentCategories =
        Some [\<lparr>raw_id = 2, raw_fields = JStr ''Tests''\<rparr>,
              \<lparr>raw_id = 1, raw_fields = JStr ''Homework''\<rparr>],
      data_notInSessionDays = JArray [JStr ''holiday''],
      data_student = JStr ''student'',
      data_yearId = JNum 28,
      data_attendance = JArray [JStr ''absent'']\<rparr>"

text \<open>The same payload with two schools, sent as an array.\<close>

definition ex_data_two_schools :: studentDataVOs where
  "ex_data_two_schools =
     ex_data\<lparr>data_schools :=
       JArray [JObject [(''schoolNumber'', JNum 7)], JObject [(''schoolNumber'', JNum 8)]]\<rparr>"

definition ex_session :: session where
  "ex_session = \<lparr>session_userId = JNum 100, session_userType = JNum 2\<rparr>"

definition ex_init :: "jsval state" where
  "ex_init = \<lparr>cache_calls = [], heap = []\<rparr>"

definition ex_user :: PowerSchoolUser where
  "ex_user = fst (new_PowerSchoolUser ex_session ex_init)"

definition ex_state :: "jsval state" where
  "ex_state = snd (new_PowerSchoolUser ex_session ex_init)"

text \<open>What the decoders make of the payload \<open>ex_data\<close>.\<close>

definition ex_decoded :: "jsval decoded" where
  "ex_decoded =
     \<lparr>decoded_school = JObject [(''schoolNumber'', JNum 7)],
      decoded_teachers = [JStr ''teacher''],
      decoded_terms = [JStr ''term''],
      decoded_reportingTerms = [JStr ''reporting term''],
      decoded_assignments =
        [\<lparr>categoryID = 1, assignment_fields = JNum 1\<rparr>,
         \<lparr>categoryID = 1, assignment_fields = JNum 1\<rparr>,
         \<lparr>categoryID = 2, assignment_fields = JNum 2\<rparr>,
         \<lparr>categoryID = 9, assignment_fields = JNum 9\<rparr>],
      decoded_assignmentScores = [JStr ''score''],
      decoded_attendanceCodes = [JStr ''code''],
      decoded_periods = [JStr ''period''],
      decoded_courses = [JStr ''course''],
      decoded_finalGrades = [JStr ''grade''],
      raw_categories =
        [\<lparr>raw_id = 2, raw_fields = JStr ''Tests''\<rparr>, \<lparr>raw_id = 1, raw_fields = JStr ''Homework''\<rparr>],
      decoded_notInSessionDays = [JStr ''holiday''],
      decoded_student = JStr ''student'',
      decoded_attendanceRecords = [JStr ''absent'']\<rparr>"

section \<open>Facts about the model\<close>

subsection \<open>typeof\<close>

lemma typeof_not_array: "typeof v \<noteq> ''array''"
  by (cases v) simp_all

subsection \<open>Objects used as dictionaries\<close>

lemma map_of_obj_insert:
  "map_of ps k = None \<Longrightarrow> map_of (obj_insert k v ps) = (map_of ps)(k \<mapsto> v)"
  by (induction ps) (auto split: if_splits)

lemma set_obj_insert: "set (obj_insert k v ps) = insert (k, v) (set ps)"
  by (induction ps) (auto split: if_splits)

lemma distinct_obj_insert:
  "distinct (map fst ps) \<Longrightarrow> map_of ps k = None \<Longrightarrow> distinct (map fst (obj_insert k v ps))"
proof (induction ps)
  case Nil
  then show ?case by simp
next
  case (Cons p ps)
  obtain k' v' where p: "p = (k', v')" by (cases p)
  from Cons.prems p have neq: "k' \<noteq> k" and none: "map_of ps k = None"
    by (auto split: if_splits)
  have "k \<notin> fst ` set ps" using none by (simp add: map_of_eq_None_iff)
  with Cons p neq none show ?case
    by (auto simp: set_obj_insert)
qed

lemma map_fst_replace:
  "map fst (map (\<lambda>(k', v'). if k' = k then (k', v) else (k', v')) ps) = map fst ps"
  by (induction ps) auto

lemma map_of_replace:
  "map_of (map (\<lambda>(k', v'). if k' = k then (k', v) else (k', v')) ps) =
   (\<lambda>x. if x = k then map_option (\<lambda>_. v) (map_of ps k) else map_of ps x)"
  by (induction ps) (auto simp: fun_eq_iff)

lemma map_of_obj_set: "map_of (obj_set k v ps) = (map_of ps)(k \<mapsto> v)"
  by (auto simp: obj_set_def map_of_obj_insert map_of_replace fun_eq_iff split: option.splits)

lemma distinct_obj_set:
  "distinct (map fst ps) \<Longrightarrow> distinct (map fst (obj_set k v ps))"
  using map_fst_replace [of k v ps]
  by (auto simp: obj_set_def distinct_obj_insert simp del: map_map split: option.splits)

text \<open>Writing a property that exists changes the value at its place and nothing else.\<close>

lemma obj_set_existing:
  assumes "distinct (map fst ps)" and "map_of ps k = Some c"
  shows "obj_set k (f c) ps = map (\<lambda>(k', c'). (k', if k' = k then f c' else c')) ps"
proof -
  have "(k', c') \<in> set ps \<Longrightarrow> k' = k \<Longrightarrow> c' = c" for k' c'
    using assms by (metis map_of_eq_Some_iff option.inject)
  then have "map (\<lambda>(k', v'). if k' = k then (k', f c) else (k', v')) ps =
             map (\<lambda>(k', c'). (k', if k' = k then f c' else c')) ps"
    by (intro map_cong) auto
  with assms show ?thesis by (simp add: obj_set_def)
qed

subsection \<open>The dictionary of the categories\<close>

lemma distinct_categories:
  "distinct (map fst init) \<Longrightarrow>
   distinct (map fst (fold (\<lambda>d cats. obj_set (raw_id d) (AssignmentCategory_fromData d) cats) ds init))"
  by (induction ds arbitrary: init) (simp_all add: distinct_obj_set)

lemma map_of_categories_other:
  "k \<notin> raw_id ` set ds \<Longrightarrow>
   map_of (fold (\<lambda>d cats. obj_set (raw_id d) (AssignmentCategory_fromData d) cats) ds init) k =
   map_of init k"
  by (induction ds arbitrary: init) (simp_all add: map_of_obj_set)

lemma map_of_categories_mem:
  "distinct (map raw_id ds) \<Longrightarrow> d \<in> set ds \<Longrightarrow>
   map_of (fold (\<lambda>d cats. obj_set (raw_id d) (AssignmentCategory_fromData d) cats) ds init)
     (raw_id d) = Some (AssignmentCategory_fromData d)"
proof (induction ds arbitrary: init)
  case Nil
  then show ?case by simp
next
  case (Cons x xs)
  show ?case
  proof (cases "d = x")
    case True
    with Cons.prems have "raw_id d \<notin> raw_id ` set xs" by auto
    then show ?thesis using True by (simp add: map_of_categories_other map_of_obj_set)
  next
    case False
    with Cons show ?thesis by simp
  qed
qed

lemma dom_categories:
  "dom (map_of (fold (\<lambda>d cats. obj_set (raw_id d) (AssignmentCategory_fromData d) cats) ds init)) =
   raw_id ` set ds \<union> dom (map_of init)"
  by (induction ds arbitrary: init) (auto simp: map_of_obj_set)

text \<open>Every category of the dictionary is filed under its own id and has no assignment yet.\<close>

lemma categories_fresh:
  "\<forall>k c. map_of init k = Some c \<longrightarrow> category_id c = k \<and> assignments c = [] \<Longrightarrow>
   map_of (fold (\<lambda>d cats. obj_set (raw_id d) (AssignmentCategory_fromData d) cats) ds init) k = Some c \<Longrightarrow>
   category_id c = k \<and> assignments c = []"
proof (induction ds arbitrary: init)
  case Nil
  then show ?case by simp
next
  case (Cons x xs)
  have "\<forall>k c. map_of (obj_set (raw_id x) (AssignmentCategory_fromData x) init) k = Some c
          \<longrightarrow> category_id c = k \<and> assignments c = []"
    using Cons.prems(1) by (auto simp: map_of_obj_set AssignmentCategory_fromData_def)
  from Cons.IH [OF this] Cons.prems(2) show ?case by simp
qed

subsection \<open>The loop that files the assignments\<close>

lemma forEach_push_eq:
  "distinct (map fst cats) \<Longrightarrow> \<forall>a \<in> set as. map_of cats (categoryID (snd a)) \<noteq> None \<Longrightarrow>
   forEach_push as cats =
     Inr (map (\<lambda>(k, c). (k, c\<lparr>assignments := assignments c @ filter (\<lambda>a. categoryID (snd a) = k) as\<rparr>))
            cats)"
proof (induction as arbitrary: cats)
  case Nil
  then show ?case by (simp add: case_prod_unfold)
next
  case (Cons a as)
  then obtain c where c: "map_of cats (categoryID (snd a)) = Some c" by auto
  let ?cats = "obj_set (categoryID (snd a)) (c\<lparr>assignments := assignments c @ [a]\<rparr>) cats"
  have eq: "?cats = map (\<lambda>(k', c'). (k', if k' = categoryID (snd a)
                then c'\<lparr>assignments := assignments c' @ [a]\<rparr> else c')) cats"
    using obj_set_existing [OF Cons.prems(1) c, of "\<lambda>c. c\<lparr>assignments := assignments c @ [a]\<rparr>"] .
  have d: "distinct (map fst ?cats)" using Cons.prems(1) by (rule distinct_obj_set)
  have "\<forall>x \<in> set as. map_of ?cats (categoryID (snd x)) \<noteq> None"
    using Cons.prems(2) by (simp add: map_of_obj_set)
  from Cons.IH [OF d this] c show ?case
    by (simp add: eq case_prod_unfold comp_def cong: map_cong)
qed

text \<open>After the filter the loop never meets a missing category: it does not throw.\<close>

lemma push_filtered:
  assumes d: "distinct (map fst cats)"
  shows "forEach_push (filter (\<lambda>a. map_of cats (categoryID (snd a)) \<noteq> None) as) cats =
     Inr (map (\<lambda>(k, c). (k, c\<lparr>assignments := assignments c @ filter (\<lambda>a. categoryID (snd a) = k) as\<rparr>))
            cats)"
proof -
  have "filter (\<lambda>a. categoryID (snd a) = k)
          (filter (\<lambda>a. map_of cats (categoryID (snd a)) \<noteq> None) as) =
        filter (\<lambda>a. categoryID (snd a) = k) as" if "(k, c) \<in> set cats" for k c
  proof -
    from that d have "map_of cats k = Some c" by simp
    then show ?thesis by (simp add: conj_commute cong: conj_cong)
  qed
  then have "map (\<lambda>(k, c). (k, c\<lparr>assignments := assignments c @ filter (\<lambda>a. categoryID (snd a) = k)
                (filter (\<lambda>a. map_of cats (categoryID (snd a)) \<noteq> None) as)\<rparr>)) cats =
             map (\<lambda>(k, c). (k, c\<lparr>assignments := assignments c @ filter (\<lambda>a. categoryID (snd a) = k) as\<rparr>))
               cats"
    by (intro map_cong) auto
  then show ?thesis
    using forEach_push_eq [OF d, of "filter (\<lambda>a. map_of cats (categoryID (snd a)) \<noteq> None) as"]
    by simp
qed

lemma count_list_distinct: "distinct xs \<Longrightarrow> x \<in> set xs \<Longrightarrow> count_list xs x = 1"
  by (induction xs) auto

lemma count_list_filter: "count_list (filter P xs) x = (if P x then count_list xs x else 0)"
  by (induction xs) auto

lemma distinct_new_objects: "distinct (new_objects xs)"
  by (simp add: new_objects_def distinct_zipI1)

subsection \<open>The categories after the loop\<close>

lemma aggregated_categories:
  fixes asg :: "'r assignment_obj list" and ds :: "raw_category list"
  defines "D \<equiv> fold (\<lambda>d cats. obj_set (raw_id d) (AssignmentCategory_fromData d) cats) ds
                 ([] :: 'r PowerSchoolAssignmentCategory js_object)"
  defines "cats \<equiv> Object_values
     (map (\<lambda>(k, c). (k, c\<lparr>assignments := assignments c @ filter (\<lambda>a. categoryID (snd a) = k) asg\<rparr>)) D)"
  shows aggregated_assignments:
      "c \<in> set cats \<Longrightarrow> assignments c = filter (\<lambda>a. categoryID (snd a) = category_id c) asg"
    and aggregated_ids: "category_id ` set cats = raw_id ` set ds"
    and aggregated_distinct: "distinct (map category_id cats)"
    and aggregated_present:
      "distinct (map raw_id ds) \<Longrightarrow> d \<in> set ds \<Longrightarrow>
       \<exists>c \<in> set cats. category_id c = raw_id d \<and> category_fields c = raw_fields d"
proof -
  have dist: "distinct (map fst D)"
    unfolding D_def by (rule distinct_categories) simp
  have fresh: "category_id c = k \<and> assignments c = []" if "(k, c) \<in> set D" for k c
  proof -
    from that dist have "map_of D k = Some c" by simp
    then show ?thesis
      unfolding D_def by (rule categories_fresh [rotated]) simp
  qed
  have cats_eq: "cats = map (\<lambda>(k, c). c\<lparr>assignments := filter (\<lambda>a. categoryID (snd a) = k) asg\<rparr>) D"
    unfolding cats_def Object_values_def using fresh
    by (auto simp: case_prod_unfold)
  show "assignments c = filter (\<lambda>a. categoryID (snd a) = category_id c) asg" if "c \<in> set cats"
    using that fresh unfolding cats_eq by auto
  have ids: "map category_id cats = map fst D"
    unfolding cats_eq using fresh by (auto simp: case_prod_unfold)
  show "distinct (map category_id cats)"
    using dist by (simp add: ids)
  have "category_id ` set cats = set (map category_id cats)" by simp
  also have "\<dots> = fst ` set D" by (simp only: ids set_map)
  also have "\<dots> = dom (map_of D)" by (simp add: dom_map_of_conv_image_fst)
  also have "\<dots> = raw_id ` set ds" unfolding D_def by (simp add: dom_categories)
  finally show "category_id ` set cats = raw_id ` set ds" .
  show "\<exists>c \<in> set cats. category_id c = raw_id d \<and> category_fields c = raw_fields d"
    if "distinct (map raw_id ds)" and "d \<in> set ds"
  proof -
    from that have "map_of D (raw_id d) = Some (AssignmentCategory_fromData d)"
      unfolding D_def by (rule map_of_categories_mem)
    then have "(raw_id d, AssignmentCategory_fromData d) \<in> set D"
      by (rule map_of_SomeD)
    then have "(AssignmentCategory_fromData d)
        \<lparr>assignments := filter (\<lambda>a. categoryID (snd a) = raw_id d) asg\<rparr> \<in> set cats"
      unfolding cats_eq by force
    then show ?thesis
      by (rule rev_bexI) (simp add: AssignmentCategory_fromData_def)
  qed
qed

subsection \<open>Steps that may throw\<close>

lemma or_throw_Inr [simp]: "or_throw (Inr x) s k = k x"
  by (simp add: or_throw_def)

lemma or_throw_Inl [simp]: "or_throw (Inl e) s k = (Thrown e, s)"
  by (simp add: or_throw_def)

lemma or_throw_ResolvedE:
  assumes "fst (or_throw step s k) = Resolved ref"
  obtains x where "step = Inr x" and "fst (k x) = Resolved ref"
  using assms by (cases step) simp_all

lemma or_throw_snd:
  assumes "P s" and "\<And>x. step = Inr x \<Longrightarrow> P (snd (k x))"
  shows "P (snd (or_throw step s k))"
  using assms by (cases step) simp_all

lemma js_map_singleton:
  "js_map f (JArray [v]) = (case f v of Inl e \<Rightarrow> Inl e | Inr y \<Rightarrow> Inr [y])"
  by (simp add: js_map_def split: sum.splits)

lemma js_map_singleton_InrE:
  assumes "js_map f (JArray [v]) = Inr ys"
  obtains y where "f v = Inr y" and "ys = [y]"
  using assms by (auto simp: js_map_singleton split: sum.splits)

subsection \<open>The callback on a reply of the expected shape\<close>

text \<open>When no step throws, the callback resolves, and this is the state it leaves.\<close>

lemma getStudentInfo_decodes:
  fixes dec :: "'r decoders" and data :: studentDataVOs and d :: "'r decoded"
  assumes dec: "decodes_to dec data d"
  defines "asg \<equiv> new_objects (decoded_assignments d)"
  defines "cats \<equiv> Object_values
     (map (\<lambda>(k, c). (k, c\<lparr>assignments := assignments c @ filter (\<lambda>a. categoryID (snd a) = k) asg\<rparr>))
        (fold (\<lambda>d cats. obj_set (raw_id d) (AssignmentCategory_fromData d) cats)
           (raw_categories d) []))"
  shows "getStudentInfo dec this err (soap_ok data) s =
    (Resolved (studentData this),
     s\<lparr>cache_calls := cache_calls s @
         [\<lparr>call_records = Records (decoded_teachers d), call_name = ''teachers'',
            call_key = None\<rparr>,
          \<lparr>call_records = Records [decoded_school d], call_name = ''schools'',
            call_key = Some ''schoolNumber''\<rparr>,
          \<lparr>call_records = Records (decoded_periods d), call_name = ''periods'', call_key = None\<rparr>,
          \<lparr>call_records = Records (decoded_courses d), call_name = ''courses'', call_key = None\<rparr>,
          \<lparr>call_records = Records (decoded_finalGrades d), call_name = ''finalGrades'',
            call_key = Some ''courseID''\<rparr>,
          \<lparr>call_records = Records (decoded_terms d), call_name = ''terms'', call_key = None\<rparr>,
          \<lparr>call_records = Records (decoded_reportingTerms d), call_name = ''reportingTerms'',
            call_key = None\<rparr>,
          \<lparr>call_records = Categories cats, call_name = ''assignmentCategories'',
            call_key = None\<rparr>,
          \<lparr>call_records = Assignments asg, call_name = ''assignments'', call_key = None\<rparr>,
          \<lparr>call_records = Records (decoded_assignmentScores d), call_name = ''assignmentScores'',
            call_key = Some ''assignmentID''\<rparr>,
          \<lparr>call_records = Records (decoded_attendanceCodes d), call_name = ''attendanceCodes'',
            call_key = None\<rparr>],
       heap := (heap s)[studentData this := (heap s ! studentData this)
         (''schools'' \<mapsto> Records [decoded_school d],
          ''teachers'' \<mapsto> Records (decoded_teachers d),
          ''periods'' \<mapsto> Records (decoded_periods d),
          ''courses'' \<mapsto> Records (decoded_courses d),
          ''terms'' \<mapsto> Records (decoded_terms d),
          ''reportingTerms'' \<mapsto> Records (decoded_reportingTerms d),
          ''notInSessionDays'' \<mapsto> Records (decoded_notInSessionDays d),
          ''student'' \<mapsto> Record (decoded_student d),
          ''yearID'' \<mapsto> Scalar (data_yearId data),
          ''assignmentCategories'' \<mapsto> Categories cats,
          ''attendanceRecords'' \<mapsto> Records (decoded_attendanceRecords d),
          ''attendanceCodes'' \<mapsto> Records (decoded_attendanceCodes d),
          ''finalGrades'' \<mapsto> Records (decoded_finalGrades d))]\<rparr>)"
proof -
  let ?D = "fold (\<lambda>d cats. obj_set (raw_id d) (AssignmentCategory_fromData d) cats)
              (raw_categories d) ([] :: 'r PowerSchoolAssignmentCategory js_object)"
  have push: "forEach_push (filter (\<lambda>a. map_of ?D (categoryID (snd a)) \<noteq> None) asg) ?D =
     Inr (map (\<lambda>(k, c). (k, c\<lparr>assignments := assignments c @
            filter (\<lambda>a. categoryID (snd a) = k) asg\<rparr>)) ?D)"
    by (rule push_filtered) (simp add: distinct_categories)
  from dec have schools: "js_map (School_fromData dec)
      (if typeof (data_schools data) = ''array'' then data_schools data
       else JArray [data_schools data]) = Inr [decoded_school d]"
    by (simp add: typeof_not_array js_map_singleton decodes_to_def)
  from dec have steps:
    "js_map (Teacher_fromData dec) (data_teachers data) = Inr (decoded_teachers d)"
    "js_map (Term_fromData dec) (data_terms data) = Inr (decoded_terms d)"
    "js_map (ReportingTerm_fromData dec) (data_reportingTerms data) = Inr (decoded_reportingTerms d)"
    "js_map (Assignment_fromData dec) (data_assignments data) = Inr (decoded_assignments d)"
    "js_map (AssignmentScore_fromData dec) (data_assignmentScores data) =
       Inr (decoded_assignmentScores d)"
    "js_map (AttendanceCode_fromData dec) (data_attendanceCodes data) =
       Inr (decoded_attendanceCodes d)"
    "js_map (Period_fromData dec) (data_periods data) = Inr (decoded_periods d)"
    "js_map (Course_fromData dec) (data_sections data) = Inr (decoded_courses d)"
    "js_map (FinalGrade_fromData dec) (data_finalGrades data) = Inr (decoded_finalGrades d)"
    "data_assignmentCategories data = Some (raw_categories d)"
    "js_map (Event_fromData dec) (data_notInSessionDays data) = Inr (decoded_notInSessionDays d)"
    "Student_fromData dec (data_student data) = Inr (decoded_student d)"
    "js_map (AttendanceRecord_fromData dec) (data_attendance data) =
       Inr (decoded_attendanceRecords d)"
    by (simp_all add: decodes_to_def)
  show ?thesis
  proof (cases "studentData this < length (heap s)")
    case True
    with push show ?thesis
      unfolding getStudentInfo_def soap_ok_def cats_def asg_def
      by (simp add: schools steps Let_def storeCacheInfo_def set_property_def)
  next
    case False
    then have beyond: "\<And>f. (heap s)[studentData this := f] = heap s"
      by (simp add: list_update_beyond)
    with push show ?thesis
      unfolding getStudentInfo_def soap_ok_def cats_def asg_def
      by (simp add: schools steps Let_def storeCacheInfo_def set_property_def)
  qed
qed

text \<open>When the callback resolves, no step has thrown.\<close>

lemma resolved_decodes:
  fixes dec :: "'r decoders"
  assumes res: "fst (getStudentInfo dec this err (soap_ok data) s) = Resolved ref"
  shows "\<exists>d. decodes_to dec data d"
proof -
  have catE: "\<exists>raws. data_assignmentCategories data = Some raws"
    if "(case data_assignmentCategories data of None \<Rightarrow> Inl TypeError
         | Some ds \<Rightarrow> Inr (g ds)) = Inr (x :: 'r PowerSchoolAssignmentCategory js_object)" for g x
    using that by (cases "data_assignmentCategories data") simp_all
  have pack: "\<exists>d. decodes_to dec data d"
    if "School_fromData dec (data_schools data) = Inr school"
      "js_map (Teacher_fromData dec) (data_teachers data) = Inr teachers"
      "js_map (Term_fromData dec) (data_terms data) = Inr terms"
      "js_map (ReportingTerm_fromData dec) (data_reportingTerms data) = Inr reportingTerms"
      "js_map (Assignment_fromData dec) (data_assignments data) = Inr decoded"
      "js_map (AssignmentScore_fromData dec) (data_assignmentScores data) = Inr assignmentScores"
      "js_map (AttendanceCode_fromData dec) (data_attendanceCodes data) = Inr attendanceCodes"
      "js_map (Period_fromData dec) (data_periods data) = Inr periods"
      "js_map (Course_fromData dec) (data_sections data) = Inr courses"
      "js_map (FinalGrade_fromData dec) (data_finalGrades data) = Inr finalGrades"
      "data_assignmentCategories data = Some raws"
      "js_map (Event_fromData dec) (data_notInSessionDays data) = Inr notInSessionDays"
      "Student_fromData dec (data_student data) = Inr student"
      "js_map (AttendanceRecord_fromData dec) (data_attendance data) = Inr attendanceRecords"
    for school teachers terms reportingTerms decoded assignmentScores attendanceCodes periods
      courses finalGrades raws notInSessionDays student attendanceRecords
    using that
    by (intro exI [of _ "\<lparr>decoded_school = school, decoded_teachers = teachers,
          decoded_terms = terms, decoded_reportingTerms = reportingTerms,
          decoded_assignments = decoded, decoded_assignmentScores = assignmentScores,
          decoded_attendanceCodes = attendanceCodes, decoded_periods = periods,
          decoded_courses = courses, decoded_finalGrades = finalGrades, raw_categories = raws,
          decoded_notInSessionDays = notInSessionDays, decoded_student = student,
          decoded_attendanceRecords = attendanceRecords\<rparr>"])
       (simp add: decodes_to_def)
  show ?thesis
    using res unfolding getStudentInfo_def soap_ok_def
    apply (simp only: option.case soap_result.simps soap_return.simps typeof_not_array if_False)
    apply (elim or_throw_ResolvedE | simp only: Let_def)+
    apply (erule js_map_singleton_InrE)
    apply (drule catE)
    apply (erule exE)
    apply (rule pack; assumption)
    done
qed

lemma resolved_iff_decodes:
  "fst (getStudentInfo dec this err (soap_ok data) s) = Resolved ref \<longleftrightarrow>
   ref = studentData this \<and> (\<exists>d. decodes_to dec data d)"
proof
  assume res: "fst (getStudentInfo dec this err (soap_ok data) s) = Resolved ref"
  then obtain d where d: "decodes_to dec data d"
    using resolved_decodes by blast
  with res show "ref = studentData this \<and> (\<exists>d. decodes_to dec data d)"
    by (auto simp: getStudentInfo_decodes)
next
  assume "ref = studentData this \<and> (\<exists>d. decodes_to dec data d)"
  then show "fst (getStudentInfo dec this err (soap_ok data) s) = Resolved ref"
    by (auto simp: getStudentInfo_decodes)
qed


subsection \<open>The ways the callback ends\<close>

lemma soap_ok_cases:
  obtains (absent) "result = None \<or> (\<exists>res. result = Some res \<and> return res = None) \<or>
     (\<exists>res ret. result = Some res \<and> return res = Some ret \<and> studentDataVOs ret = None)"
  | (ok) data where "result = soap_ok data"
proof (cases result)
  case None
  then show ?thesis by (simp add: absent)
next
  case res: (Some res)
  show ?thesis
  proof (cases "return res")
    case None
    with res show ?thesis by (simp add: absent)
  next
    case ret: (Some ret)
    show ?thesis
    proof (cases "studentDataVOs ret")
      case None
      with res ret show ?thesis by (simp add: absent)
    next
      case (Some data)
      with res ret have "result = soap_ok data"
        by (cases res, cases ret) (simp add: soap_ok_def)
      then show ?thesis by (rule ok)
    qed
  qed
qed

lemma getStudentInfo_absent:
  assumes "result = None \<or> (\<exists>res. result = Some res \<and> return res = None) \<or>
     (\<exists>res ret. result = Some res \<and> return res = Some ret \<and> studentDataVOs ret = None)"
  shows "getStudentInfo dec this err result s = (Rejected err, s)"
  using assms by (auto simp: getStudentInfo_def)

lemma getStudentInfo_resolved_ref:
  assumes "fst (getStudentInfo dec this err result s) = Resolved ref"
  shows "ref = studentData this"
proof (cases result rule: soap_ok_cases)
  case absent
  with assms show ?thesis by (simp add: getStudentInfo_absent)
next
  case (ok data)
  with assms show ?thesis by (simp add: resolved_iff_decodes)
qed

text \<open>
  The callback makes its eleven store calls in a row, after the steps of lines 65 to 79
  and before those of lines 101 to 105: whatever way it ends, it has made all of them or
  none.
\<close>

lemma getStudentInfo_calls:
  "map (\<lambda>c. (call_name c, call_key c))
     (drop (length (cache_calls s)) (cache_calls (snd (getStudentInfo dec this err result s))))
   \<in> {[], [(''teachers'', None), (''schools'', Some ''schoolNumber''), (''periods'', None),
     (''courses'', None), (''finalGrades'', Some ''courseID''), (''terms'', None),
     (''reportingTerms'', None), (''assignmentCategories'', None), (''assignments'', None),
     (''assignmentScores'', Some ''assignmentID''), (''attendanceCodes'', None)]}"
  (is "?P (snd (getStudentInfo dec this err result s))")
proof (cases result rule: soap_ok_cases)
  case absent
  then show ?thesis by (simp add: getStudentInfo_absent)
next
  case (ok data)
  have "?P (snd (getStudentInfo dec this err (soap_ok data) s))"
    unfolding getStudentInfo_def soap_ok_def
    apply (simp only: option.case soap_result.simps soap_return.simps)
    apply ((rule or_throw_snd [where P = ?P],
             (simp add: storeCacheInfo_def set_property_def; fail)) | simp only: Let_def)+
    apply (simp add: storeCacheInfo_def set_property_def)
    done
  with ok show ?thesis by simp
qed

subsection \<open>The concrete fetch, evaluated\<close>

lemma ex_user_eq:
  "ex_user = \<lparr>user_session = ex_session, userID = JNum 100, userType = JNum 2, studentData = 0\<rparr>"
  by (simp add: ex_user_def ex_init_def ex_session_def new_PowerSchoolUser_def initUserVariables_def
      new_PowerSchoolStudentInfo_def)

lemma ex_state_eq: "ex_state = \<lparr>cache_calls = [], heap = [Map.empty]\<rparr>"
  by (simp add: ex_state_def ex_init_def new_PowerSchoolUser_def initUserVariables_def
      new_PowerSchoolStudentInfo_def)

lemma ex_ref: "studentData ex_user < length (heap ex_state)"
  by (simp add: ex_user_eq ex_state_eq)

lemma ex_decodes: "decodes_to ex_dec ex_data ex_decoded"
  by (simp add: decodes_to_def ex_dec_def ex_data_def ex_decoded_def ex_fromData_def js_map_def)

lemma ex_assignments:
  "new_objects (decoded_assignments ex_decoded) =
     [(0, \<lparr>categoryID = 1, assignment_fields = JNum 1\<rparr>),
      (1, \<lparr>categoryID = 1, assignment_fields = JNum 1\<rparr>),
      (2, \<lparr>categoryID = 2, assignment_fields = JNum 2\<rparr>),
      (3, \<lparr>categoryID = 9, assignment_fields = JNum 9\<rparr>)]"
  by (simp add: ex_decoded_def new_objects_def upt_rec)

lemma ex_dictionary:
  "fold (\<lambda>d cats. obj_set (raw_id d) (AssignmentCategory_fromData d) cats)
     (raw_categories ex_decoded) [] =
   [(1, \<lparr>category_id = 1, category_fields = JStr ''Homework'', assignments = []\<rparr>),
    (2, \<lparr>category_id = 2, category_fields = JStr ''Tests'', assignments = []\<rparr>)]"
  by (simp add: ex_decoded_def obj_set_def is_array_index_def AssignmentCategory_fromData_def)

lemma ex_snapshot_categories:
  "(heap (snd (getStudentInfo ex_dec ex_user err (soap_ok ex_data) ex_state)) ! studentData ex_user)
      ''assignmentCategories'' =
   Some (Categories
    [\<lparr>category_id = 1, category_fields = JStr ''Homework'',
        assignments = [(0, \<lparr>categoryID = 1, assignment_fields = JNum 1\<rparr>),
                       (1, \<lparr>categoryID = 1, assignment_fields = JNum 1\<rparr>)]\<rparr>,
     \<lparr>category_id = 2, category_fields = JStr ''Tests'',
        assignments = [(2, \<lparr>categoryID = 2, assignment_fields = JNum 2\<rparr>)]\<rparr>])"
  by (simp add: getStudentInfo_decodes [OF ex_decodes] ex_assignments ex_dictionary ex_user_eq
      ex_state_eq Object_values_def)

subsection \<open>A throw after the store calls\<close>

text \<open>
  A reply of the expected shape whose \<open>attendance\<close> cannot be decoded, say because the
  payload has none: the callback throws on line 105, after its eleven store calls and
  after ten of its thirteen writes to the student info object. Such a fetch neither
  resolves nor rejects, and it leaves the cache and the object changed.
\<close>

lemma getStudentInfo_throws_late:
  fixes dec :: "'r decoders" and d :: "'r decoded"
  assumes dec: "decodes_to dec data d"
    and att: "js_map (AttendanceRecord_fromData dec) v = Inl e"
    and ref: "studentData this < length (heap s)"
  shows "fst (getStudentInfo dec this err (soap_ok (data\<lparr>data_attendance := v\<rparr>)) s) = Thrown e \<and>
    length (cache_calls (snd (getStudentInfo dec this err (soap_ok (data\<lparr>data_attendance := v\<rparr>)) s))) =
      length (cache_calls s) + 11 \<and>
    (heap (snd (getStudentInfo dec this err (soap_ok (data\<lparr>data_attendance := v\<rparr>)) s))
       ! studentData this) ''yearID'' = Some (Scalar (data_yearId data)) \<and>
    (heap (snd (getStudentInfo dec this err (soap_ok (data\<lparr>data_attendance := v\<rparr>)) s))
       ! studentData this) ''attendanceRecords'' = (heap s ! studentData this) ''attendanceRecords''"
proof -
  let ?D = "fold (\<lambda>d cats. obj_set (raw_id d) (AssignmentCategory_fromData d) cats)
              (raw_categories d) ([] :: 'r PowerSchoolAssignmentCategory js_object)"
  let ?asg = "new_objects (decoded_assignments d)"
  have push: "forEach_push (filter (\<lambda>a. map_of ?D (categoryID (snd a)) \<noteq> None) ?asg) ?D =
     Inr (map (\<lambda>(k, c). (k, c\<lparr>assignments := assignments c @
            filter (\<lambda>a. categoryID (snd a) = k) ?asg\<rparr>)) ?D)"
    by (rule push_filtered) (simp add: distinct_categories)
  from dec have schools:
    "js_map (School_fromData dec) (JArray [data_schools data]) = Inr [decoded_school d]"
    by (simp add: js_map_singleton decodes_to_def)
  from dec have steps:
    "js_map (Teacher_fromData dec) (data_teachers data) = Inr (decoded_teachers d)"
    "js_map (Term_fromData dec) (data_terms data) = Inr (decoded_terms d)"
    "js_map (ReportingTerm_fromData dec) (data_reportingTerms data) = Inr (decoded_reportingTerms d)"
    "js_map (Assignment_fromData dec) (data_assignments data) = Inr (decoded_assignments d)"
    "js_map (AssignmentScore_fromData dec) (data_assignmentScores data) =
       Inr (decoded_assignmentScores d)"
    "js_map (AttendanceCode_fromData dec) (data_attendanceCodes data) =
       Inr (decoded_attendanceCodes d)"
    "js_map (Period_fromData dec) (data_periods data) = Inr (decoded_periods d)"
    "js_map (Course_fromData dec) (data_sections data) = Inr (decoded_courses d)"
    "js_map (FinalGrade_fromData dec) (data_finalGrades data) = Inr (decoded_finalGrades d)"
    "data_assignmentCategories data = Some (raw_categories d)"
    "js_map (Event_fromData dec) (data_notInSessionDays data) = Inr (decoded_notInSessionDays d)"
    "Student_fromData dec (data_student data) = Inr (decoded_student d)"
    by (simp_all add: decodes_to_def)
  from push ref show ?thesis
    unfolding getStudentInfo_def soap_ok_def
    by (simp add: typeof_not_array schools steps att Let_def storeCacheInfo_def set_property_def)
qed

text \<open>
  On a result of the expected shape the callback does not look at \<open>err\<close>. (The transport's
  interface has no reply with both an error and a payload.)
\<close>

lemma err_only_passed_on:
  "getStudentInfo dec this err (soap_ok data) s = getStudentInfo dec this err' (soap_ok data) s"
  by (simp add: getStudentInfo_def soap_ok_def)

section \<open>The claims\<close>

subsection \<open>Category aggregation\<close>

text \<open>
  \<^bold>\<open>Claim C1.\<close> For a fetched payload (one on which no step of the callback throws)
  whose category ids are unique, the fetch resolves, every decoded category is on the
  snapshot's category list, and every assignment object whose \<open>categoryID\<close> is the id of
  a category \<open>c\<close> of that list is exactly once in \<open>c.assignments\<close> and in the
  \<open>assignments\<close> of no other category.
\<close>

theorem category_aggregation:
  assumes dec: "decodes_to dec data d"
    and uniq: "distinct (map raw_id (raw_categories d))"
    and ref: "studentData this < length (heap s)"
  shows "fst (getStudentInfo dec this err (soap_ok data) s) = Resolved (studentData this) \<and>
   (\<exists>cats.
    (heap (snd (getStudentInfo dec this err (soap_ok data) s)) ! studentData this)
       ''assignmentCategories'' = Some (Categories cats) \<and>
    (\<forall>r \<in> set (raw_categories d).
       \<exists>c \<in> set cats. category_id c = raw_id r \<and> category_fields c = raw_fields r) \<and>
    (\<forall>c \<in> set cats.
       \<forall>a \<in> set (new_objects (decoded_assignments d)).
         categoryID (snd a) = category_id c \<longrightarrow>
           count_list (assignments c) a = 1 \<and>
           (\<forall>c' \<in> set cats. c' \<noteq> c \<longrightarrow> a \<notin> set (assignments c'))))"
proof -
  let ?asg = "new_objects (decoded_assignments d)"
  let ?cats = "Object_values
     (map (\<lambda>(k, c). (k, c\<lparr>assignments := assignments c @ filter (\<lambda>a. categoryID (snd a) = k) ?asg\<rparr>))
        (fold (\<lambda>d cats. obj_set (raw_id d) (AssignmentCategory_fromData d) cats)
           (raw_categories d) []))"
  have res: "fst (getStudentInfo dec this err (soap_ok data) s) = Resolved (studentData this)"
    by (simp add: getStudentInfo_decodes [OF dec])
  have snap: "(heap (snd (getStudentInfo dec this err (soap_ok data) s)) ! studentData this)
       ''assignmentCategories'' = Some (Categories ?cats)"
    using ref by (simp add: getStudentInfo_decodes [OF dec])
  have present: "\<forall>r \<in> set (raw_categories d).
       \<exists>c \<in> set ?cats. category_id c = raw_id r \<and> category_fields c = raw_fields r"
    using aggregated_present [OF uniq] by blast
  have once: "count_list (assignments c) a = 1 \<and> (\<forall>c' \<in> set ?cats. c' \<noteq> c \<longrightarrow> a \<notin> set (assignments c'))"
    if c: "c \<in> set ?cats" and a: "a \<in> set ?asg" and eq: "categoryID (snd a) = category_id c" for c a
  proof
    have "count_list (assignments c) a = count_list ?asg a"
      using eq by (simp add: aggregated_assignments [OF c] count_list_filter)
    also have "\<dots> = 1"
      using a by (simp add: count_list_distinct distinct_new_objects)
    finally show "count_list (assignments c) a = 1" .
    show "\<forall>c' \<in> set ?cats. c' \<noteq> c \<longrightarrow> a \<notin> set (assignments c')"
    proof (intro ballI impI notI)
      fix c' assume c': "c' \<in> set ?cats" and neq: "c' \<noteq> c" and "a \<in> set (assignments c')"
      then have "categoryID (snd a) = category_id c'"
        by (simp add: aggregated_assignments [OF c'])
      with eq have "category_id c' = category_id c" by simp
      moreover have "inj_on category_id (set ?cats)"
        using aggregated_distinct [of ?asg "raw_categories d"]
        by (simp add: distinct_map)
      ultimately have "c' = c" using c c' by (simp add: inj_on_eq_iff)
      with neq show False by contradiction
    qed
  qed
  from res snap present once show ?thesis by blast
qed

text \<open>
  Claim C1 on the concrete fetch: the second of the two equal assignments of category 1 is
  once in the list of category 1 and not in the list of category 2.
\<close>

theorem category_aggregation_witness:
  "decodes_to ex_dec ex_data ex_decoded \<and>
   distinct (map raw_id (raw_categories ex_decoded)) \<and>
   studentData ex_user < length (heap ex_state) \<and>
   count_list
     (assignments \<lparr>category_id = 1, category_fields = JStr ''Homework'',
        assignments = [(0, \<lparr>categoryID = 1, assignment_fields = JNum 1\<rparr>),
                       (1, \<lparr>categoryID = 1, assignment_fields = JNum 1\<rparr>)]\<rparr>)
     (1, \<lparr>categoryID = 1, assignment_fields = JNum 1\<rparr>) = 1 \<and>
   (1, \<lparr>categoryID = 1, assignment_fields = JNum 1\<rparr>) \<notin>
     set (assignments \<lparr>category_id = 2, category_fields = JStr ''Tests'',
        assignments = [(2, \<lparr>categoryID = 2, assignment_fields = JNum 2\<rparr>)]\<rparr>)"
proof -
  have uniq: "distinct (map raw_id (raw_categories ex_decoded))"
    by (simp add: ex_decoded_def)
  from category_aggregation [OF ex_decodes uniq ex_ref, where err = JNull]
  obtain cats where
    snap: "(heap (snd (getStudentInfo ex_dec ex_user JNull (soap_ok ex_data) ex_state))
              ! studentData ex_user) ''assignmentCategories'' = Some (Categories cats)"
    and once: "\<forall>c \<in> set cats.
       \<forall>a \<in> set (new_objects (decoded_assignments ex_decoded)).
         categoryID (snd a) = category_id c \<longrightarrow>
           count_list (assignments c) a = 1 \<and>
           (\<forall>c' \<in> set cats. c' \<noteq> c \<longrightarrow> a \<notin> set (assignments c'))"
    by blast
  from snap have cats: "cats =
    [\<lparr>category_id = 1, category_fields = JStr ''Homework'',
        assignments = [(0, \<lparr>categoryID = 1, assignment_fields = JNum 1\<rparr>),
                       (1, \<lparr>categoryID = 1, assignment_fields = JNum 1\<rparr>)]\<rparr>,
     \<lparr>category_id = 2, category_fields = JStr ''Tests'',
        assignments = [(2, \<lparr>categoryID = 2, assignment_fields = JNum 2\<rparr>)]\<rparr>]"
    by (simp add: ex_snapshot_categories)
  from once uniq ex_ref ex_decodes show ?thesis
    unfolding cats ex_assignments by simp
qed

text \<open>
  \<^bold>\<open>Claim C2.\<close> An assignment whose \<open>categoryID\<close> is the id of no category of the
  payload is in no category's \<open>assignments\<close>, and it does not make the fetch fail: a
  payload whose collections can be decoded resolves, whatever the category ids of its
  assignments.
\<close>

theorem unmatched_assignment_dropped:
  assumes dec: "decodes_to dec data d"
    and ref: "studentData this < length (heap s)"
  shows "fst (getStudentInfo dec this err (soap_ok data) s) = Resolved (studentData this) \<and>
    (\<exists>cats.
      (heap (snd (getStudentInfo dec this err (soap_ok data) s)) ! studentData this)
         ''assignmentCategories'' = Some (Categories cats) \<and>
      (\<forall>a \<in> set (new_objects (decoded_assignments d)).
         categoryID (snd a) \<notin> raw_id ` set (raw_categories d) \<longrightarrow>
           (\<forall>c \<in> set cats. a \<notin> set (assignments c))))"
proof -
  let ?asg = "new_objects (decoded_assignments d)"
  let ?cats = "Object_values
     (map (\<lambda>(k, c). (k, c\<lparr>assignments := assignments c @ filter (\<lambda>a. categoryID (snd a) = k) ?asg\<rparr>))
        (fold (\<lambda>d cats. obj_set (raw_id d) (AssignmentCategory_fromData d) cats)
           (raw_categories d) []))"
  have res: "fst (getStudentInfo dec this err (soap_ok data) s) = Resolved (studentData this)"
    by (simp add: getStudentInfo_decodes [OF dec])
  have snap: "(heap (snd (getStudentInfo dec this err (soap_ok data) s)) ! studentData this)
       ''assignmentCategories'' = Some (Categories ?cats)"
    using ref by (simp add: getStudentInfo_decodes [OF dec])
  have dropped: "a \<notin> set (assignments c)"
    if "categoryID (snd a) \<notin> raw_id ` set (raw_categories d)" and c: "c \<in> set ?cats"
    for a c
  proof
    assume "a \<in> set (assignments c)"
    then have "categoryID (snd a) = category_id c"
      by (simp add: aggregated_assignments [OF c])
    moreover have "category_id c \<in> raw_id ` set (raw_categories d)"
      using c aggregated_ids [of ?asg "raw_categories d"] by blast
    ultimately show False using that(1) by simp
  qed
  from res snap dropped show ?thesis by blast
qed

text \<open>
  Claim C2 on the concrete fetch: the assignment of the missing category 9 is in neither
  list, and the fetch resolves.
\<close>

theorem unmatched_assignment_dropped_witness:
  "decodes_to ex_dec ex_data ex_decoded \<and>
   studentData ex_user < length (heap ex_state) \<and>
   fst (getStudentInfo ex_dec ex_user JNull (soap_ok ex_data) ex_state) = Resolved 0 \<and>
   categoryID (snd (3::nat, \<lparr>categoryID = 9, assignment_fields = JNum 9\<rparr>))
     \<notin> raw_id ` set (raw_categories ex_decoded) \<and>
   (3, \<lparr>categoryID = 9, assignment_fields = JNum 9\<rparr>) \<notin>
     set (assignments \<lparr>category_id = 1, category_fields = JStr ''Homework'',
        assignments = [(0, \<lparr>categoryID = 1, assignment_fields = JNum 1\<rparr>),
                       (1, \<lparr>categoryID = 1, assignment_fields = JNum 1\<rparr>)]\<rparr>) \<and>
   (3, \<lparr>categoryID = 9, assignment_fields = JNum 9\<rparr>) \<notin>
     set (assignments \<lparr>category_id = 2, category_fields = JStr ''Tests'',
        assignments = [(2, \<lparr>categoryID = 2, assignment_fields = JNum 2\<rparr>)]\<rparr>)"
proof -
  from unmatched_assignment_dropped [OF ex_decodes ex_ref, where err = JNull]
  obtain cats where
    res: "fst (getStudentInfo ex_dec ex_user JNull (soap_ok ex_data) ex_state) =
            Resolved (studentData ex_user)"
    and snap: "(heap (snd (getStudentInfo ex_dec ex_user JNull (soap_ok ex_data) ex_state))
              ! studentData ex_user) ''assignmentCategories'' = Some (Categories cats)"
    and dropped: "\<forall>a \<in> set (new_objects (decoded_assignments ex_decoded)).
         categoryID (snd a) \<notin> raw_id ` set (raw_categories ex_decoded) \<longrightarrow>
           (\<forall>c \<in> set cats. a \<notin> set (assignments c))"
    by blast
  from snap have cats: "cats =
    [\<lparr>category_id = 1, category_fields = JStr ''Homework'',
        assignments = [(0, \<lparr>categoryID = 1, assignment_fields = JNum 1\<rparr>),
                       (1, \<lparr>categoryID = 1, assignment_fields = JNum 1\<rparr>)]\<rparr>,
     \<lparr>category_id = 2, category_fields = JStr ''Tests'',
        assignments = [(2, \<lparr>categoryID = 2, assignment_fields = JNum 2\<rparr>)]\<rparr>]"
    by (simp add: ex_snapshot_categories)
  have ids: "raw_id ` set (raw_categories ex_decoded) = {2, 1}"
    by (simp add: ex_decoded_def)
  from dropped res ex_ref ex_decodes show ?thesis
    unfolding cats ex_assignments ids by (simp add: ex_user_eq)
qed

subsection \<open>The schools field\<close>

text \<open>
  \<^bold>\<open>Claim C3.\<close> When the \<open>schools\<close> field of a fetched payload is a single object, the
  decoded schools (the records of the \<open>schools\<close> store call, the second call of the fetch)
  and the snapshot's \<open>schools\<close> are the one record decoded from that object.
\<close>

theorem schools_single_object:
  assumes res: "fst (getStudentInfo dec this err (soap_ok (data\<lparr>data_schools := JObject ps\<rparr>)) s) =
      Resolved ref"
    and ref: "ref < length (heap s)"
  shows "\<exists>school. School_fromData dec (JObject ps) = Inr school \<and>
         (heap (snd (getStudentInfo dec this err (soap_ok (data\<lparr>data_schools := JObject ps\<rparr>)) s))
            ! ref) ''schools'' = Some (Records [school]) \<and>
         cache_calls (snd (getStudentInfo dec this err (soap_ok (data\<lparr>data_schools := JObject ps\<rparr>)) s))
            ! (length (cache_calls s) + 1) =
           \<lparr>call_records = Records [school], call_name = ''schools'',
            call_key = Some ''schoolNumber''\<rparr>"
proof -
  from res obtain d where r: "ref = studentData this"
    and d: "decodes_to dec (data\<lparr>data_schools := JObject ps\<rparr>) d"
    by (auto simp: resolved_iff_decodes)
  from d have "School_fromData dec (JObject ps) = Inr (decoded_school d)"
    by (simp add: decodes_to_def)
  with ref show ?thesis
    unfolding r by (simp add: getStudentInfo_decodes [OF d] nth_append)
qed

text \<open>Claim C3 on the concrete fetch, whose payload has one school object.\<close>

theorem schools_single_object_witness:
  "fst (getStudentInfo ex_dec ex_user JNull (soap_ok ex_data) ex_state) = Resolved 0 \<and>
   (0::nat) < length (heap ex_state) \<and>
   School_fromData ex_dec (JObject [(''schoolNumber'', JNum 7)]) =
     Inr (JObject [(''schoolNumber'', JNum 7)]) \<and>
   (heap (snd (getStudentInfo ex_dec ex_user JNull (soap_ok ex_data) ex_state)) ! 0)
      ''schools'' = Some (Records [JObject [(''schoolNumber'', JNum 7)]]) \<and>
   cache_calls (snd (getStudentInfo ex_dec ex_user JNull (soap_ok ex_data) ex_state)) ! 1 =
     \<lparr>call_records = Records [JObject [(''schoolNumber'', JNum 7)]], call_name = ''schools'',
      call_key = Some ''schoolNumber''\<rparr>"
proof -
  have same: "ex_data\<lparr>data_schools := JObject [(''schoolNumber'', JNum 7)]\<rparr> = ex_data"
    by (simp add: ex_data_def)
  have res: "fst (getStudentInfo ex_dec ex_user JNull
      (soap_ok (ex_data\<lparr>data_schools := JObject [(''schoolNumber'', JNum 7)]\<rparr>)) ex_state) = Resolved 0"
    unfolding same by (simp add: getStudentInfo_decodes [OF ex_decodes] ex_user_eq)
  have ref: "(0::nat) < length (heap ex_state)"
    by (simp add: ex_state_eq)
  have dec: "School_fromData ex_dec (JObject [(''schoolNumber'', JNum 7)]) =
      Inr (JObject [(''schoolNumber'', JNum 7)])"
    by (simp add: ex_dec_def ex_fromData_def)
  have len: "length (cache_calls ex_state) + 1 = 1"
    by (simp add: ex_state_eq)
  from schools_single_object [OF res ref] res ref dec
  show ?thesis
    unfolding same len by auto
qed

text \<open>
  \<^bold>\<open>Claim C4.\<close> A payload whose \<open>schools\<close> field is an array of n school objects
  should give n decoded schools. The code tests \<open>typeof data.schools === "array"\<close>, which
  holds for no value (\<open>typeof_not_array\<close>): the array is wrapped like a single object and
  \<open>PowerSchoolSchool.fromData\<close> is called once, on the array itself. For the payload with
  two schools the snapshot and the cache get one record, decoded from the whole array.
\<close>

theorem schools_array_kept_whole:
  "fst (getStudentInfo ex_dec ex_user JNull (soap_ok ex_data_two_schools) ex_state) = Resolved 0 \<and>
   (heap (snd (getStudentInfo ex_dec ex_user JNull (soap_ok ex_data_two_schools) ex_state))
      ! 0) ''schools'' =
     Some (Records [JArray [JObject [(''schoolNumber'', JNum 7)], JObject [(''schoolNumber'', JNum 8)]]]) \<and>
   cache_calls (snd (getStudentInfo ex_dec ex_user JNull (soap_ok ex_data_two_schools) ex_state)) ! 1 =
     \<lparr>call_records =
        Records [JArray [JObject [(''schoolNumber'', JNum 7)], JObject [(''schoolNumber'', JNum 8)]]],
      call_name = ''schools'', call_key = Some ''schoolNumber''\<rparr>"
proof -
  have "decodes_to ex_dec ex_data_two_schools
     (ex_decoded\<lparr>decoded_school :=
        JArray [JObject [(''schoolNumber'', JNum 7)], JObject [(''schoolNumber'', JNum 8)]]\<rparr>)"
    by (simp add: decodes_to_def ex_dec_def ex_data_def ex_data_two_schools_def ex_decoded_def
        ex_fromData_def js_map_def)
  from getStudentInfo_decodes [OF this] show ?thesis
    by (simp add: ex_user_eq ex_state_eq)
qed

subsection \<open>The store calls\<close>

text \<open>
  \<^bold>\<open>Claim C5.\<close> Every store call that a run of the callback makes has the key field
  of its collection: \<open>schoolNumber\<close> for the schools, \<open>courseID\<close> for the final grades,
  \<open>assignmentID\<close> for the assignment scores, and the default \<open>id\<close> for every other
  stored collection.
\<close>

theorem store_calls_key_fields:
  "\<forall>c \<in> set (drop (length (cache_calls s))
               (cache_calls (snd (getStudentInfo dec this err result s)))).
     key_field c =
       (if call_name c = ''schools'' then ''schoolNumber''
        else if call_name c = ''finalGrades'' then ''courseID''
        else if call_name c = ''assignmentScores'' then ''assignmentID''
        else ''id'')"
proof
  fix c
  let ?calls = "drop (length (cache_calls s))
               (cache_calls (snd (getStudentInfo dec this err result s)))"
  let ?eleven = "[(''teachers'', None), (''schools'', Some ''schoolNumber''),
     (''periods'', None), (''courses'', None), (''finalGrades'', Some ''courseID''), (''terms'', None),
     (''reportingTerms'', None), (''assignmentCategories'', None), (''assignments'', None),
     (''assignmentScores'', Some ''assignmentID''), (''attendanceCodes'', None)]"
  assume c: "c \<in> set ?calls"
  then have mem: "(call_name c, call_key c) \<in> set (map (\<lambda>c. (call_name c, call_key c)) ?calls)"
    by (simp only: set_map) (rule imageI)
  have "map (\<lambda>c. (call_name c, call_key c)) ?calls = [] \<or>
        map (\<lambda>c. (call_name c, call_key c)) ?calls = ?eleven"
    using getStudentInfo_calls [of s dec this err result] by blast
  then have "(call_name c, call_key c) \<in> set ?eleven"
  proof
    assume "map (\<lambda>c. (call_name c, call_key c)) ?calls = []"
    with mem show ?thesis by (simp only: list.set empty_iff)
  next
    assume "map (\<lambda>c. (call_name c, call_key c)) ?calls = ?eleven"
    with mem show ?thesis by (simp only:)
  qed
  then have "call_name c \<noteq> ''schools'' \<and> call_name c \<noteq> ''finalGrades'' \<and>
      call_name c \<noteq> ''assignmentScores'' \<and> call_key c = None \<or>
    call_name c = ''schools'' \<and> call_key c = Some ''schoolNumber'' \<or>
    call_name c = ''finalGrades'' \<and> call_key c = Some ''courseID'' \<or>
    call_name c = ''assignmentScores'' \<and> call_key c = Some ''assignmentID''"
    by (simp only: list.set insert_iff empty_iff prod.inject) (elim disjE conjE; simp)
  then show "key_field c =
       (if call_name c = ''schools'' then ''schoolNumber''
        else if call_name c = ''finalGrades'' then ''courseID''
        else if call_name c = ''assignmentScores'' then ''assignmentID''
        else ''id'')"
    by (elim disjE conjE) (simp_all add: key_field_def)
qed

text \<open>Claim C5 on the concrete fetch: the collections stored, each with its key field.\<close>

theorem store_calls_key_fields_witness:
  "map (\<lambda>c. (call_name c, key_field c))
     (drop (length (cache_calls ex_state))
        (cache_calls (snd (getStudentInfo ex_dec ex_user JNull (soap_ok ex_data) ex_state)))) =
   [(''teachers'', ''id''), (''schools'', ''schoolNumber''), (''periods'', ''id''),
    (''courses'', ''id''), (''finalGrades'', ''courseID''), (''terms'', ''id''),
    (''reportingTerms'', ''id''), (''assignmentCategories'', ''id''), (''assignments'', ''id''),
    (''assignmentScores'', ''assignmentID''), (''attendanceCodes'', ''id'')]"
proof -
  have names: "map call_name (drop (length (cache_calls ex_state))
        (cache_calls (snd (getStudentInfo ex_dec ex_user JNull (soap_ok ex_data) ex_state)))) =
     [''teachers'', ''schools'', ''periods'', ''courses'', ''finalGrades'', ''terms'',
      ''reportingTerms'', ''assignmentCategories'', ''assignments'', ''assignmentScores'',
      ''attendanceCodes'']"
    by (simp add: getStudentInfo_decodes [OF ex_decodes])
  have "map (\<lambda>c. (call_name c, key_field c)) cs =
        map (\<lambda>n. (n, if n = ''schools'' then ''schoolNumber''
                     else if n = ''finalGrades'' then ''courseID''
                     else if n = ''assignmentScores'' then ''assignmentID''
                     else ''id'')) (map call_name cs)"
    if "\<forall>c \<in> set cs. key_field c =
       (if call_name c = ''schools'' then ''schoolNumber''
        else if call_name c = ''finalGrades'' then ''courseID''
        else if call_name c = ''assignmentScores'' then ''assignmentID''
        else ''id'')" for cs :: "jsval store_call list"
    using that by (induction cs) simp_all
  from this [OF store_calls_key_fields [where s = ex_state and dec = ex_dec and this = ex_user
      and err = JNull and result = "soap_ok ex_data"]]
  show ?thesis unfolding names by simp
qed




subsection \<open>Failed fetches\<close>



text \<open>
  \<^bold>\<open>Claim C8.\<close> When the transport reports an error, or its result lacks the expected
  shape, the callback rejects before any call of \<open>storeCacheInfo\<close> and before any write
  to the student info object: the store calls and the heap are what they were.
\<close>

theorem failed_reply_changes_nothing:
  assumes "(\<exists>e. reply = TransportError e) \<or> reply_result reply = None \<or>
     (\<exists>res. reply_result reply = Some res \<and> return res = None) \<or>
     (\<exists>res ret. reply_result reply = Some res \<and> return res = Some ret \<and>
        studentDataVOs ret = None)"
  shows "fst (getStudentInfo dec this (reply_err reply) (reply_result reply) s) =
           Rejected (reply_err reply) \<and>
         cache_calls (snd (getStudentInfo dec this (reply_err reply) (reply_result reply) s)) =
           cache_calls s \<and>
         heap (snd (getStudentInfo dec this (reply_err reply) (reply_result reply) s)) = heap s \<and>
         snd (getStudentInfo dec this (reply_err reply) (reply_result reply) s) = s"
proof -
  from assms have "reply_result reply = None \<or>
     (\<exists>res. reply_result reply = Some res \<and> return res = None) \<or>
     (\<exists>res ret. reply_result reply = Some res \<and> return res = Some ret \<and>
        studentDataVOs ret = None)"
    by auto
  then have "getStudentInfo dec this (reply_err reply) (reply_result reply) s =
      (Rejected (reply_err reply), s)"
    by (rule getStudentInfo_absent)
  then show ?thesis by simp
qed

text \<open>
  Claim C8 on a transport error after a fetch that resolved: the state with its eleven
  store calls and its snapshot is left as it was.
\<close>

theorem failed_reply_changes_nothing_witness:
  "fst (getStudentInfo ex_dec ex_user (reply_err (TransportError (JStr ''ECONNRESET'')))
          (reply_result (TransportError (JStr ''ECONNRESET'')))
          (snd (getStudentInfo ex_dec ex_user JNull (soap_ok ex_data) ex_state))) =
     Rejected (JStr ''ECONNRESET'') \<and>
   snd (getStudentInfo ex_dec ex_user (reply_err (TransportError (JStr ''ECONNRESET'')))
          (reply_result (TransportError (JStr ''ECONNRESET'')))
          (snd (getStudentInfo ex_dec ex_user JNull (soap_ok ex_data) ex_state))) =
     snd (getStudentInfo ex_dec ex_user JNull (soap_ok ex_data) ex_state) \<and>
   length (cache_calls (snd (getStudentInfo ex_dec ex_user JNull (soap_ok ex_data) ex_state))) = 11 \<and>
   (heap (snd (getStudentInfo ex_dec ex_user JNull (soap_ok ex_data) ex_state)) ! studentData ex_user)
      ''yearID'' = Some (Scalar (JNum 28))"
proof -
  let ?st = "snd (getStudentInfo ex_dec ex_user JNull (soap_ok ex_data) ex_state)"
  have h: "(\<exists>e. TransportError (JStr ''ECONNRESET'') = TransportError e) \<or>
     reply_result (TransportError (JStr ''ECONNRESET'')) = None \<or>
     (\<exists>res. reply_result (TransportError (JStr ''ECONNRESET'')) = Some res \<and> return res = None) \<or>
     (\<exists>res ret. reply_result (TransportError (JStr ''ECONNRESET'')) = Some res \<and>
        return res = Some ret \<and> studentDataVOs ret = None)"
    by simp
  have prior: "length (cache_calls ?st) = 11 \<and>
     (heap ?st ! studentData ex_user) ''yearID'' = Some (Scalar (JNum 28))"
    unfolding getStudentInfo_decodes [OF ex_decodes]
    by (simp add: ex_user_eq ex_state_eq ex_data_def)
  from failed_reply_changes_nothing [OF h, of ex_dec ex_user ?st] prior show ?thesis
    by simp
qed

subsection \<open>The snapshot\<close>




text \<open>
  \<^bold>\<open>Claim C10.\<close> Whatever a call of \<open>getStudentInfo\<close> resolves with is the reference
  \<open>this.studentData\<close>. Two successful fetches in a row resolve with this same reference;
  no object is created, no other object changes, and the second fetch overwrites the
  object in place: afterwards it is what the second fetch alone would have made of it,
  with the second payload's year id.
\<close>

theorem same_snapshot_object:
  assumes ref: "studentData this < length (heap s)"
    and d1: "decodes_to dec data1 d1"
    and d2: "decodes_to dec data2 d2"
  shows "let r1 = getStudentInfo dec this err1 (soap_ok data1) s;
             r2 = getStudentInfo dec this err2 (soap_ok data2) (snd r1)
         in (\<forall>err result s' ref.
               fst (getStudentInfo dec this err result s') = Resolved ref \<longrightarrow>
                 ref = studentData this) \<and>
            fst r1 = Resolved (studentData this) \<and>
            fst r2 = Resolved (studentData this) \<and>
            length (heap (snd r1)) = length (heap s) \<and>
            length (heap (snd r2)) = length (heap s) \<and>
            (\<forall>a. a \<noteq> studentData this \<longrightarrow> heap (snd r2) ! a = heap s ! a) \<and>
            heap (snd r2) ! studentData this =
              heap (snd (getStudentInfo dec this err2 (soap_ok data2) s)) ! studentData this \<and>
            (heap (snd r2) ! studentData this) ''yearID'' = Some (Scalar (data_yearId data2))"
proof -
  have same: "ref = studentData this"
    if "fst (getStudentInfo dec this err result s') = Resolved ref" for err result s' ref
    using that by (rule getStudentInfo_resolved_ref)
  have rest: "let r1 = getStudentInfo dec this err1 (soap_ok data1) s;
             r2 = getStudentInfo dec this err2 (soap_ok data2) (snd r1)
         in fst r1 = Resolved (studentData this) \<and>
            fst r2 = Resolved (studentData this) \<and>
            length (heap (snd r1)) = length (heap s) \<and>
            length (heap (snd r2)) = length (heap s) \<and>
            (\<forall>a. a \<noteq> studentData this \<longrightarrow> heap (snd r2) ! a = heap s ! a) \<and>
            heap (snd r2) ! studentData this =
              heap (snd (getStudentInfo dec this err2 (soap_ok data2) s)) ! studentData this \<and>
            (heap (snd r2) ! studentData this) ''yearID'' = Some (Scalar (data_yearId data2))"
    using ref unfolding getStudentInfo_decodes [OF d1] getStudentInfo_decodes [OF d2] Let_def
    by simp
  from same rest show ?thesis
    unfolding Let_def by blast
qed

text \<open>
  Claim C10 on the user made by the constructor: both fetches resolve with reference 0, and the
  year id read through it is 28 after the first fetch and 29 after the second.
\<close>

theorem same_snapshot_object_witness:
  "studentData ex_user < length (heap ex_state) \<and>
   decodes_to ex_dec ex_data ex_decoded \<and>
   decodes_to ex_dec (ex_data\<lparr>data_yearId := JNum 29\<rparr>) ex_decoded \<and>
   fst (getStudentInfo ex_dec ex_user JNull (soap_ok ex_data) ex_state) = Resolved 0 \<and>
   fst (getStudentInfo ex_dec ex_user JNull (soap_ok (ex_data\<lparr>data_yearId := JNum 29\<rparr>))
          (snd (getStudentInfo ex_dec ex_user JNull (soap_ok ex_data) ex_state))) = Resolved 0 \<and>
   (heap (snd (getStudentInfo ex_dec ex_user JNull (soap_ok ex_data) ex_state)) ! 0) ''yearID'' =
     Some (Scalar (JNum 28)) \<and>
   (heap (snd (getStudentInfo ex_dec ex_user JNull (soap_ok (ex_data\<lparr>data_yearId := JNum 29\<rparr>))
          (snd (getStudentInfo ex_dec ex_user JNull (soap_ok ex_data) ex_state)))) ! 0) ''yearID'' =
     Some (Scalar (JNum 29))"
proof -
  have zero: "studentData ex_user = 0"
    by (simp add: ex_user_eq)
  have d2: "decodes_to ex_dec (ex_data\<lparr>data_yearId := JNum 29\<rparr>) ex_decoded"
    using ex_decodes by (simp add: decodes_to_def)
  have first: "(heap (snd (getStudentInfo ex_dec ex_user JNull (soap_ok ex_data) ex_state)) ! 0)
      ''yearID'' = Some (Scalar (JNum 28))"
    unfolding getStudentInfo_decodes [OF ex_decodes]
    by (simp add: ex_user_eq ex_state_eq ex_data_def)
  have y: "data_yearId (ex_data\<lparr>data_yearId := JNum 29\<rparr>) = JNum 29"
    by simp
  note both = same_snapshot_object [OF ex_ref ex_decodes d2, where ?err1.0 = JNull
      and ?err2.0 = JNull, unfolded Let_def zero y]
  from both ex_ref ex_decodes d2 first show ?thesis by blast
qed

end
